theory Spec2Isabelle
  imports Complex_Main "HOL-Library.Sublist"
begin

section \<open>Frontend data model\<close>

text \<open>
  The components read \<open>Movie\<close> and \<open>Recommendation\<close> values decoded from the
  backend's JSON. Both carry \<open>movie_id: number\<close> and \<open>title\<close>; a
  \<open>Recommendation\<close> is a \<open>Movie\<close> with further fields. The type declarations
  live in \<open>lib/api\<close>; only the fields that the components below read are named, the
  rest stays in the record's extension slot. \<open>movie_id\<close> is a JSON number that the
  rating data model fixes as an integer, so \<open>===\<close> on it is equality on \<open>int\<close>
  (JSON cannot carry NaN, the one number that is not \<open>===\<close> to itself).
\<close>

record movie =
  movie_id :: int
  title :: string

record recommendation = movie +
  recommendation_type :: string
  explanation :: "string option"

section \<open>Array primitives used by RecommendationDashboard\<close>

text \<open>
  \<open>Array.prototype.findIndex\<close>: scan from index 0 upwards, return the index of the
  first element that satisfies the predicate, or \<open>-1\<close> when none does.
\<close>

fun findIndex_from :: "('a \<Rightarrow> bool) \<Rightarrow> 'a list \<Rightarrow> int \<Rightarrow> int" where
  "findIndex_from p [] k = - 1"
| "findIndex_from p (x # xs) k = (if p x then k else findIndex_from p xs (k + 1))"

definition findIndex :: "('a \<Rightarrow> bool) \<Rightarrow> 'a list \<Rightarrow> int" where
  "findIndex p arr = findIndex_from p arr 0"

text \<open>
  \<open>Array.prototype.filter\<close> with the three-argument callback
  \<open>(element, index, array)\<close>: the callback sees every element together with its index
  and the whole array; the elements it accepts are kept in order.
\<close>

fun filter_from :: "('a \<Rightarrow> int \<Rightarrow> 'a list \<Rightarrow> bool) \<Rightarrow> 'a list \<Rightarrow> 'a list \<Rightarrow> int \<Rightarrow> 'a list" where
  "filter_from f arr [] k = []"
| "filter_from f arr (x # xs) k =
     (if f x k arr then x # filter_from f arr xs (k + 1) else filter_from f arr xs (k + 1))"

definition array_filter :: "('a \<Rightarrow> int \<Rightarrow> 'a list \<Rightarrow> bool) \<Rightarrow> 'a list \<Rightarrow> 'a list" where
  "array_filter f arr = filter_from f arr arr 0"

text \<open>\<open>Array.prototype.map\<close> with the callback \<open>(element, index)\<close>.\<close>

fun map_from :: "('a \<Rightarrow> int \<Rightarrow> 'b) \<Rightarrow> 'a list \<Rightarrow> int \<Rightarrow> 'b list" where
  "map_from f [] k = []"
| "map_from f (x # xs) k = f x k # map_from f xs (k + 1)"

definition array_map :: "('a \<Rightarrow> int \<Rightarrow> 'b) \<Rightarrow> 'a list \<Rightarrow> 'b list" where
  "array_map f arr = map_from f arr 0"

section \<open>RecommendationDashboard: the two movie grids\<close>

text \<open>
  The callback both grids pass to \<open>filter\<close>:
  \<^verbatim>\<open>(movie, index, arr) => arr.findIndex((m) => m.movie_id === movie.movie_id) === index\<close>
\<close>

definition first_with_id :: "'a movie_scheme \<Rightarrow> int \<Rightarrow> 'a movie_scheme list \<Rightarrow> bool" where
  "first_with_id movie index arr \<longleftrightarrow>
     findIndex (\<lambda>m. movie_id m = movie_id movie) arr = index"

text \<open>
  What a grid hands to one \<open>MovieCard\<close>: the React key (its three parts: the prefix,
  the movie id and the index within the filtered array), the movie, and the two flags.
  \<open>onRate\<close> is always the dashboard's \<open>handleRateMovie\<close>.
\<close>

record 'm movie_card =
  card_key :: "string \<times> int \<times> int"
  card_movie :: 'm
  isRecommendation :: bool
  showExplanation :: bool

datatype 'm grid = Grid "'m movie_card list" | Empty_state

definition recommendations_grid :: "'a recommendation_scheme list \<Rightarrow> 'a recommendation_scheme grid" where
  "recommendations_grid recommendations =
     (if length recommendations > 0
      then Grid (array_map
                  (\<lambda>movie index. \<lparr>card_key = (''rec'', movie_id movie, index), card_movie = movie,
                                  isRecommendation = True, showExplanation = True\<rparr>)
                  (array_filter first_with_id recommendations))
      else Empty_state)"

definition movies_grid :: "'a movie_scheme list \<Rightarrow> 'a movie_scheme grid" where
  "movies_grid movies =
     (if length movies > 0
      then Grid (array_map
                  (\<lambda>movie index. \<lparr>card_key = (''movie'', movie_id movie, index), card_movie = movie,
                                  isRecommendation = False, showExplanation = False\<rparr>)
                  (array_filter first_with_id movies))
      else Empty_state)"

text \<open>The movies a grid shows, in rendering order (none in the empty state).\<close>

fun rendered :: "'m grid \<Rightarrow> 'm list" where
  "rendered (Grid cards) = map card_movie cards"
| "rendered Empty_state = []"

text \<open>
  The reference the grids are compared with, in the words of the property: walk the list
  once, remember the ids seen so far, keep an element exactly when its id is new.
\<close>

fun first_occurrences :: "int set \<Rightarrow> 'a movie_scheme list \<Rightarrow> 'a movie_scheme list" where
  "first_occurrences seen [] = []"
| "first_occurrences seen (x # xs) =
     (if movie_id x \<in> seen then first_occurrences seen xs
      else x # first_occurrences (insert (movie_id x) seen) xs)"

text \<open>
  Position \<open>i\<close> of an array holds the first occurrence of its movie id when no element
  before it has the same id; \<open>keeps_first_occurrences input shown\<close> says that
  \<open>shown\<close> consists of exactly the elements of \<open>input\<close> at such positions, in the
  order of their positions.
\<close>

definition first_occurrence_at :: "'a movie_scheme list \<Rightarrow> nat \<Rightarrow> bool" where
  "first_occurrence_at arr i \<longleftrightarrow> movie_id (arr ! i) \<notin> set (map movie_id (take i arr))"

definition keeps_first_occurrences :: "'a movie_scheme list \<Rightarrow> 'a movie_scheme list \<Rightarrow> bool" where
  "keeps_first_occurrences input shown \<longleftrightarrow>
     shown = map (\<lambda>i. input ! i) (filter (first_occurrence_at input) [0..<length input])"

section \<open>MovieCard\<close>

text \<open>
  The \<open>movie\<close> prop is a \<open>Movie | Recommendation\<close>; the component tells the two
  apart with \<open>"recommendation_type" in movie\<close>.
\<close>

datatype movie_or_recommendation = A_movie movie | A_recommendation recommendation

fun id_of :: "movie_or_recommendation \<Rightarrow> int" where
  "id_of (A_movie m) = movie_id m"
| "id_of (A_recommendation r) = movie_id r"

fun has_recommendation_type :: "movie_or_recommendation \<Rightarrow> bool" where
  "has_recommendation_type (A_movie m) = False"
| "has_recommendation_type (A_recommendation r) = True"

text \<open>
  The component state: \<open>userRating\<close> (\<open>useState(0)\<close>) and \<open>isRating\<close>
  (\<open>useState(false)\<close>). \<open>handleRateMovie\<close> is an async function: it runs up to
  \<open>await onRate(...)\<close>, and resumes when that promise settles. \<open>awaited\<close> holds the
  \<open>rating\<close> argument of every invocation that is suspended at its \<open>await\<close>, oldest
  first.
\<close>

record card_state =
  userRating :: int
  isRating :: bool
  awaited :: "int list"

definition initial_state :: card_state where
  "initial_state = \<lparr>userRating = 0, isRating = False, awaited = []\<rparr>"

datatype settled = Fulfilled | Rejected

text \<open>
  \<open>handleRateMovie(rating)\<close> up to the \<open>await\<close>: without an \<open>onRate\<close> prop nothing
  happens; otherwise \<open>isRating\<close> is set and \<open>onRate(movie.movie_id, rating)\<close> is called.
  The second component lists the calls made to \<open>onRate\<close>.
\<close>

definition handleRateMovie_call ::
  "bool \<Rightarrow> movie_or_recommendation \<Rightarrow> int \<Rightarrow> card_state \<Rightarrow> card_state \<times> (int \<times> int) list" where
  "handleRateMovie_call onRate movie rating s =
     (if onRate
      then (s\<lparr>isRating := True, awaited := awaited s @ [rating]\<rparr>, [(id_of movie, rating)])
      else (s, []))"

text \<open>
  \<open>handleRateMovie(rating)\<close> after the \<open>await\<close>: a fulfilled promise continues with
  \<open>setUserRating(rating)\<close>, a rejected one with the \<open>catch\<close> block (which only logs);
  \<open>finally\<close> clears \<open>isRating\<close> either way.
\<close>

definition handleRateMovie_resume :: "settled \<Rightarrow> int \<Rightarrow> card_state \<Rightarrow> card_state" where
  "handleRateMovie_resume outcome rating s =
     (case outcome of
        Fulfilled \<Rightarrow> s\<lparr>userRating := rating\<rparr>
      | Rejected \<Rightarrow> s)\<lparr>isRating := False\<rparr>"

text \<open>The five star buttons, and the stars drawn highlighted (\<open>star <= userRating\<close>).\<close>

definition stars :: "int list" where
  "stars = [1, 2, 3, 4, 5]"

definition highlighted :: "card_state \<Rightarrow> int list" where
  "highlighted s = filter (\<lambda>star. star \<le> userRating s) stars"

text \<open>The \<open>onClick\<close> handlers of a star button and of the Like button.\<close>

definition star_onClick ::
  "bool \<Rightarrow> movie_or_recommendation \<Rightarrow> int \<Rightarrow> card_state \<Rightarrow> card_state \<times> (int \<times> int) list" where
  "star_onClick onRate movie star s = handleRateMovie_call onRate movie star s"

definition like_onClick ::
  "bool \<Rightarrow> movie_or_recommendation \<Rightarrow> card_state \<Rightarrow> card_state \<times> (int \<times> int) list" where
  "like_onClick onRate movie s =
     handleRateMovie_call onRate movie (if userRating s > 0 then userRating s else 4) s"

text \<open>
  Which buttons exist and react: the stars are rendered when \<open>onRate\<close> is given, the
  Like button when \<open>isRecommendation && "recommendation_type" in movie\<close> and \<open>onRate\<close>
  is given; both are \<open>disabled={isRating}\<close>.
\<close>

definition star_clickable :: "bool \<Rightarrow> int \<Rightarrow> card_state \<Rightarrow> bool" where
  "star_clickable onRate star s \<longleftrightarrow> onRate \<and> star \<in> set stars \<and> \<not> isRating s"

definition like_clickable :: "bool \<Rightarrow> movie_or_recommendation \<Rightarrow> bool \<Rightarrow> card_state \<Rightarrow> bool" where
  "like_clickable onRate movie isRec s \<longleftrightarrow>
     isRec \<and> has_recommendation_type movie \<and> onRate \<and> \<not> isRating s"

text \<open>
  What can happen to a mounted card: a click on a star or on Like (without effect when the
  button is absent or disabled), or the oldest pending \<open>onRate\<close> promise settling.
\<close>

datatype event = Click_star int | Click_like | Settle settled

fun step ::
  "bool \<Rightarrow> movie_or_recommendation \<Rightarrow> bool \<Rightarrow> event \<Rightarrow> card_state \<Rightarrow> card_state \<times> (int \<times> int) list" where
  "step onRate movie isRec (Click_star star) s =
     (if star_clickable onRate star s then star_onClick onRate movie star s else (s, []))"
| "step onRate movie isRec Click_like s =
     (if like_clickable onRate movie isRec s then like_onClick onRate movie s else (s, []))"
| "step onRate movie isRec (Settle outcome) s =
     (case awaited s of
        [] \<Rightarrow> (s, [])
      | rating # rest \<Rightarrow> (handleRateMovie_resume outcome rating (s\<lparr>awaited := rest\<rparr>), []))"

fun after :: "bool \<Rightarrow> movie_or_recommendation \<Rightarrow> bool \<Rightarrow> event list \<Rightarrow> card_state \<Rightarrow> card_state" where
  "after onRate movie isRec [] s = s"
| "after onRate movie isRec (e # es) s = after onRate movie isRec es (fst (step onRate movie isRec e s))"

text \<open>
  The invariant of the card state: the rating is 0 (nothing selected) or one of the five
  stars, at most one invocation is suspended, and \<open>isRating\<close> is set exactly while one is.
\<close>

definition card_inv :: "card_state \<Rightarrow> bool" where
  "card_inv s \<longleftrightarrow>
     0 \<le> userRating s \<and> userRating s \<le> 5 \<and>
     list_all (\<lambda>r. 1 \<le> r \<and> r \<le> 5) (awaited s) \<and>
     length (awaited s) \<le> 1 \<and>
     (isRating s \<longleftrightarrow> awaited s \<noteq> [])"

section \<open>Recommendation engine: similarity and evaluation\<close>

text \<open>
  The engine itself (the backend's \<open>models/recommender.py\<close> and its training and
  evaluation pipeline) is not among the source files; the frontend above only calls it
  over HTTP. The definitions of this section follow the specification's description of the
  Similarity Engine and of the Evaluator, with ratings and scores as real numbers, as the
  specification's data model has them.
\<close>

text \<open>
  Modelled from the spec: the Interaction Matrix built by the absent Matrix Builder, a
  sparse structure from (user index, item index) to the rating value, over dense indices
  \<open>0..<n_users\<close> and \<open>0..<n_items\<close>.
\<close>

record interaction_matrix =
  n_users :: nat
  n_items :: nat
  rating_at :: "nat \<Rightarrow> nat \<Rightarrow> real option"

text \<open>
  Modelled from the spec: the dot product the absent Similarity Engine normalises
  ("normalized dot-product similarity between two rating vectors").
\<close>

definition dot :: "real list \<Rightarrow> real list \<Rightarrow> real" where
  "dot xs ys = sum_list (map (\<lambda>(x, y). x * y) (zip xs ys))"

text \<open>Modelled from the spec: the Euclidean length used by the absent Similarity Engine.\<close>

definition magnitude :: "real list \<Rightarrow> real" where
  "magnitude xs = sqrt (dot xs xs)"

text \<open>
  Modelled from the spec: cosine similarity of the absent Similarity Engine; a vector of
  length zero yields 0 instead of a division by zero.
\<close>

definition cosine :: "real list \<Rightarrow> real list \<Rightarrow> real" where
  "cosine xs ys =
     (if magnitude xs = 0 \<or> magnitude ys = 0 then 0
      else dot xs ys / (magnitude xs * magnitude ys))"

text \<open>Modelled from the spec: a rating vector minus its mean, for the absent engine's Pearson correlation.\<close>

definition centred :: "real list \<Rightarrow> real list" where
  "centred xs = map (\<lambda>x. x - sum_list xs / real (length xs)) xs"

text \<open>
  Modelled from the spec: Pearson correlation of the absent Similarity Engine
  ("covariance-normalized similarity, insensitive to each vector's mean offset");
  zero-variance vectors yield 0.
\<close>

definition pearson :: "real list \<Rightarrow> real list \<Rightarrow> real" where
  "pearson xs ys = cosine (centred xs) (centred ys)"

text \<open>Modelled from the spec: the items both users have rated (absent Similarity Engine).\<close>

definition co_rated_items :: "interaction_matrix \<Rightarrow> nat \<Rightarrow> nat \<Rightarrow> nat list" where
  "co_rated_items m a b =
     filter (\<lambda>i. rating_at m a i \<noteq> None \<and> rating_at m b i \<noteq> None) [0..<n_items m]"

text \<open>Modelled from the spec: the users who rated both items (absent Similarity Engine).\<close>

definition co_raters :: "interaction_matrix \<Rightarrow> nat \<Rightarrow> nat \<Rightarrow> nat list" where
  "co_raters m i j =
     filter (\<lambda>u. rating_at m u i \<noteq> None \<and> rating_at m u j \<noteq> None) [0..<n_users m]"

text \<open>
  Modelled from the spec: user similarity of the absent Similarity Engine, "cosine
  similarity between two users' rating vectors restricted to items both have rated; if the
  two users share zero co-rated items, similarity is defined as 0".
\<close>

definition user_similarity :: "interaction_matrix \<Rightarrow> nat \<Rightarrow> nat \<Rightarrow> real" where
  "user_similarity m a b =
     (let shared = co_rated_items m a b in
      if shared = [] then 0
      else cosine (map (\<lambda>i. the (rating_at m a i)) shared)
                  (map (\<lambda>i. the (rating_at m b i)) shared))"

text \<open>
  Modelled from the spec: item similarity of the absent Similarity Engine, "Pearson
  correlation between two items' rating vectors restricted to users who rated both; if
  fewer than a minimum co-rater threshold exist, similarity is forced to 0".
\<close>

definition item_similarity :: "nat \<Rightarrow> interaction_matrix \<Rightarrow> nat \<Rightarrow> nat \<Rightarrow> real" where
  "item_similarity min_co_raters m i j =
     (let shared = co_raters m i j in
      if length shared < min_co_raters then 0
      else pearson (map (\<lambda>u. the (rating_at m u i)) shared)
                   (map (\<lambda>u. the (rating_at m u j)) shared))"

text \<open>
  Modelled from the spec: how the absent Similarity Engine fills a matrix, "the engine
  computes only the upper triangle and mirrors it", with the diagonal "defined as 1.0".
\<close>

definition mirrored :: "(nat \<Rightarrow> nat \<Rightarrow> real) \<Rightarrow> nat \<Rightarrow> nat \<Rightarrow> real" where
  "mirrored sim a b = (if a = b then 1 else if a < b then sim a b else sim b a)"

text \<open>Modelled from the spec: the user-user similarity matrix of the absent Similarity Engine.\<close>

definition user_similarity_matrix :: "interaction_matrix \<Rightarrow> nat \<Rightarrow> nat \<Rightarrow> real" where
  "user_similarity_matrix m = mirrored (user_similarity m)"

text \<open>Modelled from the spec: the item-item similarity matrix of the absent Similarity Engine.\<close>

definition item_similarity_matrix :: "nat \<Rightarrow> interaction_matrix \<Rightarrow> nat \<Rightarrow> nat \<Rightarrow> real" where
  "item_similarity_matrix min_co_raters m = mirrored (item_similarity min_co_raters m)"

text \<open>
  Modelled from the spec: the rating snapshot of the specification's first concrete
  scenario, \<open>(u1,m1,5), (u1,m2,3), (u2,m1,5), (u2,m2,3), (u3,m1,1)\<close>, as the absent
  Matrix Builder would index it (users and items numbered from 0 in order of appearance).
\<close>

definition scenario :: interaction_matrix where
  "scenario = \<lparr>n_users = 3, n_items = 2,
     rating_at = (\<lambda>u i. if u = 0 \<and> i = 0 then Some 5 else if u = 0 \<and> i = 1 then Some 3
                        else if u = 1 \<and> i = 0 then Some 5 else if u = 1 \<and> i = 1 then Some 3
                        else if u = 2 \<and> i = 0 then Some 1 else None)\<rparr>"

text \<open>
  Modelled from the spec: a test rating as the absent Evaluator scores it, the held-out
  actual value together with the prediction of the hybrid path, if there is a valid one.
\<close>

record scored_rating =
  predicted :: "real option"
  actual :: real

text \<open>
  Modelled from the spec: the errors \<open>predicted - actual\<close> "over all test ratings with
  a valid prediction" (absent Evaluator).
\<close>

definition valid_errors :: "scored_rating list \<Rightarrow> real list" where
  "valid_errors ts =
     concat (map (\<lambda>t. case predicted t of None \<Rightarrow> [] | Some p \<Rightarrow> [p - actual t]) ts)"

text \<open>
  Modelled from the spec: the arithmetic mean the absent Evaluator aggregates with. The
  specification does not say what the mean of no number is; the claims below are about test
  sets with at least one valid prediction.
\<close>

definition mean :: "real list \<Rightarrow> real" where
  "mean xs = sum_list xs / real (length xs)"

text \<open>Modelled from the spec: "RMSE = sqrt(mean((predicted - actual)^2))" of the absent Evaluator.\<close>

definition rmse :: "scored_rating list \<Rightarrow> real" where
  "rmse ts = sqrt (mean (map (\<lambda>e. e\<^sup>2) (valid_errors ts)))"

text \<open>Modelled from the spec: "MAE = mean(|predicted - actual|)" of the absent Evaluator.\<close>

definition mae :: "scored_rating list \<Rightarrow> real" where
  "mae ts = mean (map (\<lambda>e. \<bar>e\<bar>) (valid_errors ts))"

section \<open>Array primitives: basic facts\<close>

lemma findIndex_from_none:
  "(\<And>x. x \<in> set xs \<Longrightarrow> \<not> p x) \<Longrightarrow> findIndex_from p xs k = - 1"
  by (induction xs arbitrary: k) auto

lemma findIndex_from_bounds:
  "x \<in> set xs \<Longrightarrow> p x \<Longrightarrow> k \<le> findIndex_from p xs k \<and> findIndex_from p xs k < k + int (length xs)"
proof (induction xs arbitrary: k)
  case Nil
  then show ?case by simp
next
  case (Cons y ys)
  show ?case
  proof (cases "p y")
    case True
    then show ?thesis by simp
  next
    case False
    with Cons.prems have "x \<in> set ys" by auto
    from Cons.IH [OF this Cons.prems(2), of "k + 1"] False show ?thesis by simp
  qed
qed

lemma findIndex_from_append:
  "findIndex_from p (pre @ ys) k =
     (if \<exists>x \<in> set pre. p x then findIndex_from p pre k
      else findIndex_from p ys (k + int (length pre)))"
  by (induction pre arbitrary: k) (auto simp: algebra_simps)

lemma findIndex_at_split:
  assumes "p x"
  shows "findIndex p (pre @ x # xs) = int (length pre) \<longleftrightarrow> (\<forall>y \<in> set pre. \<not> p y)"
proof (cases "\<exists>y \<in> set pre. p y")
  case True
  then obtain y where y: "y \<in> set pre" "p y" by blast
  from findIndex_from_bounds [of y pre p 0] y
  have "findIndex_from p pre 0 < int (length pre)" by simp
  with True show ?thesis
    by (simp add: findIndex_def findIndex_from_append)
next
  case False
  with assms show ?thesis
    by (simp add: findIndex_def findIndex_from_append)
qed

lemma map_from_fst: "map g (map_from (\<lambda>x i. h x i) xs k) = map_from (\<lambda>x i. g (h x i)) xs k"
  by (induction xs arbitrary: k) auto

lemma map_from_const: "map_from (\<lambda>x i. x) xs k = xs"
  by (induction xs arbitrary: k) auto

section \<open>The filter keeps the first occurrences\<close>

lemma filter_from_first_with_id:
  "filter_from first_with_id (pre @ xs) xs (int (length pre))
     = first_occurrences (movie_id ` set pre) xs"
proof (induction xs arbitrary: pre)
  case Nil
  show ?case by simp
next
  case (Cons x xs)
  have keep: "first_with_id x (int (length pre)) (pre @ x # xs) \<longleftrightarrow> movie_id x \<notin> movie_id ` set pre"
  proof -
    have "first_with_id x (int (length pre)) (pre @ x # xs) \<longleftrightarrow> (\<forall>y \<in> set pre. movie_id y \<noteq> movie_id x)"
      unfolding first_with_id_def
      using findIndex_at_split [of "\<lambda>m. movie_id m = movie_id x" x pre xs] by simp
    also have "\<dots> \<longleftrightarrow> movie_id x \<notin> movie_id ` set pre"
      by (metis image_iff)
    finally show ?thesis .
  qed
  have step: "filter_from first_with_id (pre @ x # xs) xs (int (length pre) + 1)
                = first_occurrences (movie_id ` set (pre @ [x])) xs"
    using Cons.IH [of "pre @ [x]"] by (simp add: algebra_simps)
  show ?case
  proof (cases "movie_id x \<in> movie_id ` set pre")
    case True
    then have "movie_id ` set (pre @ [x]) = movie_id ` set pre" by auto
    with True keep step show ?thesis by simp
  next
    case False
    with keep step show ?thesis by simp
  qed
qed

lemma array_filter_first_with_id:
  "array_filter first_with_id xs = first_occurrences {} xs"
  using filter_from_first_with_id [of "[]" xs] by (simp add: array_filter_def)

lemma first_occurrences_ids:
  "distinct (map movie_id (first_occurrences seen xs)) \<and>
   set (map movie_id (first_occurrences seen xs)) = movie_id ` set xs - seen"
  by (induction xs arbitrary: seen) auto

lemma first_occurrences_subseq: "subseq (first_occurrences seen xs) xs"
  by (induction xs arbitrary: seen) auto

lemma first_occurrences_positions:
  "first_occurrences seen xs =
     map (\<lambda>i. xs ! i)
       (filter (\<lambda>i. movie_id (xs ! i) \<notin> seen \<union> set (map movie_id (take i xs))) [0..<length xs])"
proof (induction xs arbitrary: seen)
  case Nil
  show ?case by simp
next
  case (Cons x xs)
  have upt: "[0..<length (x # xs)] = 0 # map Suc [0..<length xs]"
    by (simp add: upt_conv_Cons map_Suc_upt del: upt_Suc)
  have rest: "map (\<lambda>i. (x # xs) ! i)
       (filter (\<lambda>i. movie_id ((x # xs) ! i) \<notin> seen \<union> set (map movie_id (take i (x # xs))))
          (map Suc [0..<length xs]))
     = first_occurrences (insert (movie_id x) seen) xs"
    by (simp add: Cons.IH [of "insert (movie_id x) seen"] filter_map comp_def conj_ac)
  show ?case
  proof (cases "movie_id x \<in> seen")
    case True
    then have "insert (movie_id x) seen = seen" by auto
    with True rest show ?thesis
      unfolding upt by simp
  next
    case False
    with rest show ?thesis
      unfolding upt by simp
  qed
qed

lemma keeps_first_occurrences_filter:
  "keeps_first_occurrences xs (array_filter first_with_id xs)"
proof -
  have "first_occurrence_at xs = (\<lambda>i. movie_id (xs ! i) \<notin> {} \<union> set (map movie_id (take i xs)))"
    by (simp add: fun_eq_iff first_occurrence_at_def)
  then show ?thesis
    unfolding keeps_first_occurrences_def array_filter_first_with_id
    using first_occurrences_positions [of "{}" xs] by simp
qed

section \<open>What the grids render\<close>

lemma rendered_recommendations_grid:
  "rendered (recommendations_grid recs) = array_filter first_with_id recs"
  by (cases recs) (simp_all add: recommendations_grid_def array_map_def array_filter_def
      map_from_fst map_from_const)

lemma rendered_movies_grid:
  "rendered (movies_grid ms) = array_filter first_with_id ms"
  by (cases ms) (simp_all add: movies_grid_def array_map_def array_filter_def
      map_from_fst map_from_const)

section \<open>Claims about RecommendationDashboard\<close>

text \<open>
  C9. Both the recommendations grid and the browse-movies grid render each \<open>movie_id\<close>
  at most once. For every input list (duplicates in the backend response included) the
  rendered movies are exactly the elements standing at the first occurrence of their
  \<open>movie_id\<close>, in the order they have in the input: the rendered list is a
  subsequence of the input, its ids are pairwise distinct, and every id of the input is
  rendered.
\<close>

theorem grids_render_first_occurrences:
  "keeps_first_occurrences recs (rendered (recommendations_grid recs)) \<and>
   subseq (rendered (recommendations_grid recs)) recs \<and>
   distinct (map movie_id (rendered (recommendations_grid recs))) \<and>
   set (map movie_id (rendered (recommendations_grid recs))) = set (map movie_id recs) \<and>
   keeps_first_occurrences ms (rendered (movies_grid ms)) \<and>
   subseq (rendered (movies_grid ms)) ms \<and>
   distinct (map movie_id (rendered (movies_grid ms))) \<and>
   set (map movie_id (rendered (movies_grid ms))) = set (map movie_id ms)"
proof -
  have r: "rendered (recommendations_grid recs) = first_occurrences {} recs"
    by (simp add: rendered_recommendations_grid array_filter_first_with_id)
  have m: "rendered (movies_grid ms) = first_occurrences {} ms"
    by (simp add: rendered_movies_grid array_filter_first_with_id)
  have "keeps_first_occurrences recs (rendered (recommendations_grid recs))"
    by (simp add: rendered_recommendations_grid keeps_first_occurrences_filter)
  moreover have "subseq (rendered (recommendations_grid recs)) recs"
    unfolding r by (rule first_occurrences_subseq)
  moreover have "distinct (map movie_id (rendered (recommendations_grid recs)))"
    unfolding r using first_occurrences_ids [of "{}" recs] by simp
  moreover have "set (map movie_id (rendered (recommendations_grid recs))) = set (map movie_id recs)"
    unfolding r using first_occurrences_ids [of "{}" recs] by simp
  moreover have "keeps_first_occurrences ms (rendered (movies_grid ms))"
    by (simp add: rendered_movies_grid keeps_first_occurrences_filter)
  moreover have "subseq (rendered (movies_grid ms)) ms"
    unfolding m by (rule first_occurrences_subseq)
  moreover have "distinct (map movie_id (rendered (movies_grid ms)))"
    unfolding m using first_occurrences_ids [of "{}" ms] by simp
  moreover have "set (map movie_id (rendered (movies_grid ms))) = set (map movie_id ms)"
    unfolding m using first_occurrences_ids [of "{}" ms] by simp
  ultimately show ?thesis by blast
qed

text \<open>
  The theorem at a backend response with repeated ids \<open>7, 3, 7, 5, 3\<close>: each grid
  shows \<open>7, 3, 5\<close>.
\<close>

theorem grids_render_first_occurrences_witness:
  "map movie_id (rendered (recommendations_grid
      [\<lparr>movie_id = 7, title = ''Heat'', recommendation_type = ''hybrid'', explanation = None\<rparr>,
       \<lparr>movie_id = 3, title = ''Alien'', recommendation_type = ''hybrid'', explanation = None\<rparr>,
       \<lparr>movie_id = 7, title = ''Heat'', recommendation_type = ''user'', explanation = None\<rparr>,
       \<lparr>movie_id = 5, title = ''Brazil'', recommendation_type = ''hybrid'', explanation = None\<rparr>,
       \<lparr>movie_id = 3, title = ''Alien'', recommendation_type = ''item'', explanation = None\<rparr>]))
     = [7, 3, 5] \<and>
   map movie_id (rendered (movies_grid
      [\<lparr>movie_id = 7, title = ''Heat''\<rparr>, \<lparr>movie_id = 3, title = ''Alien''\<rparr>,
       \<lparr>movie_id = 7, title = ''Heat''\<rparr>, \<lparr>movie_id = 5, title = ''Brazil''\<rparr>,
       \<lparr>movie_id = 3, title = ''Alien''\<rparr>]))
     = [7, 3, 5] \<and>
   distinct (map movie_id (rendered (movies_grid
      [\<lparr>movie_id = 7, title = ''Heat''\<rparr>, \<lparr>movie_id = 3, title = ''Alien''\<rparr>,
       \<lparr>movie_id = 7, title = ''Heat''\<rparr>, \<lparr>movie_id = 5, title = ''Brazil''\<rparr>,
       \<lparr>movie_id = 3, title = ''Alien''\<rparr>])))"
  using grids_render_first_occurrences
    [of "[\<lparr>movie_id = 7, title = ''Heat'', recommendation_type = ''hybrid'', explanation = None\<rparr>,
          \<lparr>movie_id = 3, title = ''Alien'', recommendation_type = ''hybrid'', explanation = None\<rparr>,
          \<lparr>movie_id = 7, title = ''Heat'', recommendation_type = ''user'', explanation = None\<rparr>,
          \<lparr>movie_id = 5, title = ''Brazil'', recommendation_type = ''hybrid'', explanation = None\<rparr>,
          \<lparr>movie_id = 3, title = ''Alien'', recommendation_type = ''item'', explanation = None\<rparr>]"
        "[\<lparr>movie_id = 7, title = ''Heat''\<rparr>, \<lparr>movie_id = 3, title = ''Alien''\<rparr>,
          \<lparr>movie_id = 7, title = ''Heat''\<rparr>, \<lparr>movie_id = 5, title = ''Brazil''\<rparr>,
          \<lparr>movie_id = 3, title = ''Alien''\<rparr>]"]
  by (simp add: recommendations_grid_def movies_grid_def array_map_def array_filter_def
      first_with_id_def findIndex_def)

section \<open>MovieCard: the state invariant\<close>

lemma card_inv_initial: "card_inv initial_state"
  by (simp add: card_inv_def initial_state_def)

lemma card_inv_step:
  assumes "card_inv s"
  shows "card_inv (fst (step onRate movie isRec e s))"
proof (cases e)
  case (Click_star star)
  with assms show ?thesis
    by (auto simp: card_inv_def star_clickable_def star_onClick_def handleRateMovie_call_def stars_def)
next
  case Click_like
  with assms show ?thesis
    by (auto simp: card_inv_def like_clickable_def like_onClick_def handleRateMovie_call_def)
next
  case (Settle outcome)
  with assms show ?thesis
    by (cases "awaited s"; cases outcome)
       (auto simp: card_inv_def handleRateMovie_resume_def)
qed

lemma card_inv_after:
  "card_inv s \<Longrightarrow> card_inv (after onRate movie isRec es s)"
  by (induction es arbitrary: s) (simp_all add: card_inv_step)

lemma highlighted_upto:
  assumes "1 \<le> r" "r \<le> 5"
  shows "filter (\<lambda>star. star \<le> r) stars = [1..r]"
proof -
  from assms have "r = 1 \<or> r = 2 \<or> r = 3 \<or> r = 4 \<or> r = 5" by arith
  then show ?thesis
    by (elim disjE) (simp_all add: stars_def upto.simps)
qed

section \<open>Claims about MovieCard\<close>

text \<open>
  C10. In every state a mounted card can reach in which the Like button is rendered and
  enabled, clicking it calls \<open>onRate\<close> once, for this card's movie, with the rating 4
  when no star is selected (\<open>userRating = 0\<close>) and with the selected star rating
  otherwise; and when that submission succeeds (the promise is fulfilled), \<open>userRating\<close>
  becomes the submitted value, so the stars \<open>1\<close> up to that value are drawn highlighted.
\<close>

theorem like_submits_selected_or_4:
  assumes "s = after onRate movie isRec es initial_state"
    and "like_clickable onRate movie isRec s"
  shows "snd (step onRate movie isRec Click_like s)
           = [(id_of movie, if userRating s = 0 then 4 else userRating s)] \<and>
         userRating (fst (step onRate movie isRec (Settle Fulfilled)
                            (fst (step onRate movie isRec Click_like s))))
           = (if userRating s = 0 then 4 else userRating s) \<and>
         highlighted (fst (step onRate movie isRec (Settle Fulfilled)
                             (fst (step onRate movie isRec Click_like s))))
           = [1..(if userRating s = 0 then 4 else userRating s)]"
proof -
  have inv: "card_inv s"
    unfolding assms(1) by (rule card_inv_after [OF card_inv_initial])
  from assms(2) have on: "onRate" and idle: "\<not> isRating s"
    by (simp_all add: like_clickable_def)
  from inv idle have none: "awaited s = []"
    by (simp add: card_inv_def)
  from inv have range: "0 \<le> userRating s" "userRating s \<le> 5"
    by (simp_all add: card_inv_def)
  define r where "r = (if userRating s = 0 then 4 else userRating s)"
  from range have r_pos: "r = (if userRating s > 0 then userRating s else 4)"
    by (simp add: r_def)
  from range have r_range: "1 \<le> r" "r \<le> 5"
    by (simp_all add: r_def)
  have click: "step onRate movie isRec Click_like s
                 = (s\<lparr>isRating := True, awaited := [r]\<rparr>, [(id_of movie, r)])"
    using assms(2) on none r_pos
    by (simp add: like_onClick_def handleRateMovie_call_def)
  have settle: "fst (step onRate movie isRec (Settle Fulfilled) (s\<lparr>isRating := True, awaited := [r]\<rparr>))
                  = s\<lparr>isRating := False, awaited := [], userRating := r\<rparr>"
    by (simp add: handleRateMovie_resume_def)
  have "highlighted (s\<lparr>isRating := False, awaited := [], userRating := r\<rparr>) = [1..r]"
    using highlighted_upto [OF r_range] by (simp add: highlighted_def)
  with click settle show ?thesis
    unfolding r_def [symmetric] by simp
qed

text \<open>
  The theorem on a freshly mounted card (Like submits 4 and four stars light up) and on a
  card whose second star was clicked and accepted before (Like submits 2).
\<close>

theorem like_submits_selected_or_4_witness:
  "snd (step True (A_recommendation \<lparr>movie_id = 42, title = ''Heat'',
          recommendation_type = ''hybrid'', explanation = None\<rparr>) True Click_like initial_state)
     = [(42, 4)] \<and>
   highlighted (fst (step True (A_recommendation \<lparr>movie_id = 42, title = ''Heat'',
          recommendation_type = ''hybrid'', explanation = None\<rparr>) True (Settle Fulfilled)
        (fst (step True (A_recommendation \<lparr>movie_id = 42, title = ''Heat'',
          recommendation_type = ''hybrid'', explanation = None\<rparr>) True Click_like initial_state))))
     = [1, 2, 3, 4] \<and>
   snd (step True (A_recommendation \<lparr>movie_id = 42, title = ''Heat'',
          recommendation_type = ''hybrid'', explanation = None\<rparr>) True Click_like
        (after True (A_recommendation \<lparr>movie_id = 42, title = ''Heat'',
          recommendation_type = ''hybrid'', explanation = None\<rparr>) True
          [Click_star 2, Settle Fulfilled] initial_state))
     = [(42, 2)]"
proof -
  let ?m = "A_recommendation \<lparr>movie_id = 42, title = ''Heat'',
          recommendation_type = ''hybrid'', explanation = None\<rparr>"
  have fresh: "like_clickable True ?m True initial_state"
    by (simp add: like_clickable_def initial_state_def)
  have rated: "after True ?m True [Click_star 2, Settle Fulfilled] initial_state
                 = \<lparr>userRating = 2, isRating = False, awaited = []\<rparr>"
    by (simp add: initial_state_def star_clickable_def stars_def star_onClick_def
        handleRateMovie_call_def handleRateMovie_resume_def)
  have again: "like_clickable True ?m True (after True ?m True [Click_star 2, Settle Fulfilled] initial_state)"
    unfolding rated by (simp add: like_clickable_def)
  have init: "initial_state = after True ?m True [] initial_state"
    by simp
  from like_submits_selected_or_4 [OF init fresh]
       like_submits_selected_or_4 [OF refl again]
  show ?thesis
    unfolding rated
    by (simp add: initial_state_def like_clickable_def like_onClick_def
        handleRateMovie_call_def handleRateMovie_resume_def highlighted_def stars_def)
qed

section \<open>Similarity: symmetry of the pairwise measures\<close>

lemma dot_commute: "dot xs ys = dot ys xs"
proof -
  have "map (\<lambda>(x, y). x * y) (zip xs ys) = map (\<lambda>(x, y). x * y) (zip ys xs)"
    by (induction xs ys rule: list_induct2') (simp_all add: mult.commute)
  then show ?thesis by (simp add: dot_def)
qed

lemma cosine_commute: "cosine xs ys = cosine ys xs"
  by (auto simp: cosine_def dot_commute [of xs ys] mult.commute)

lemma pearson_commute: "pearson xs ys = pearson ys xs"
  by (simp add: pearson_def cosine_commute)

lemma co_rated_items_commute: "co_rated_items m a b = co_rated_items m b a"
  by (simp add: co_rated_items_def conj_commute)

lemma co_raters_commute: "co_raters m i j = co_raters m j i"
  by (simp add: co_raters_def conj_commute)

lemma user_similarity_commute: "user_similarity m a b = user_similarity m b a"
  by (simp add: user_similarity_def Let_def co_rated_items_commute [of m a b] cosine_commute)

lemma item_similarity_commute: "item_similarity k m i j = item_similarity k m j i"
  by (simp add: item_similarity_def Let_def co_raters_commute [of m i j] pearson_commute)

lemma mirrored_commute: "mirrored sim a b = mirrored sim b a"
  by (simp add: mirrored_def)

section \<open>Evaluation: mean absolute error against root mean square error\<close>

lemma cross_term_bound:
  "2 * a * sum_list (map (\<lambda>e. \<bar>e\<bar>) xs) \<le> real (length xs) * a\<^sup>2 + sum_list (map (\<lambda>e. e\<^sup>2) xs)"
proof (induction xs)
  case Nil
  show ?case by simp
next
  case (Cons x xs)
  have "0 \<le> (a - \<bar>x\<bar>)\<^sup>2" by simp
  then have "2 * a * \<bar>x\<bar> \<le> a\<^sup>2 + x\<^sup>2"
    by (simp add: power2_diff)
  with Cons.IH show ?case
    by (simp add: algebra_simps)
qed

lemma abs_sum_squared_le:
  "(sum_list (map (\<lambda>e. \<bar>e\<bar>) xs))\<^sup>2 \<le> real (length xs) * sum_list (map (\<lambda>e. e\<^sup>2) xs)"
proof (induction xs)
  case Nil
  show ?case by simp
next
  case (Cons x xs)
  from cross_term_bound [of "\<bar>x\<bar>" xs]
  have "2 * \<bar>x\<bar> * sum_list (map (\<lambda>e. \<bar>e\<bar>) xs)
          \<le> real (length xs) * x\<^sup>2 + sum_list (map (\<lambda>e. e\<^sup>2) xs)"
    by simp
  with Cons.IH show ?case
    by (simp add: power2_sum algebra_simps)
qed

lemma mean_abs_le_root_mean_square:
  assumes "xs \<noteq> []"
  shows "mean (map (\<lambda>e. \<bar>e\<bar>) xs) \<le> sqrt (mean (map (\<lambda>e. e\<^sup>2) xs))"
proof (rule real_le_rsqrt)
  let ?n = "real (length xs)"
  let ?S = "sum_list (map (\<lambda>e. \<bar>e\<bar>) xs)"
  let ?Q = "sum_list (map (\<lambda>e. e\<^sup>2) xs)"
  from assms have n: "0 < ?n" by simp
  have "(?S / ?n)\<^sup>2 = ?S\<^sup>2 / ?n\<^sup>2"
    by (simp add: power_divide)
  also have "\<dots> \<le> (?n * ?Q) / ?n\<^sup>2"
    using abs_sum_squared_le [of xs] n by (simp add: divide_right_mono)
  also have "\<dots> = ?Q / ?n"
    using n by (simp add: power2_eq_square)
  finally show "(mean (map (\<lambda>e. \<bar>e\<bar>) xs))\<^sup>2 \<le> mean (map (\<lambda>e. e\<^sup>2) xs)"
    by (simp add: mean_def)
qed

lemma mean_abs_nonneg: "0 \<le> mean (map (\<lambda>e. \<bar>e\<bar>) xs)"
proof -
  have "0 \<le> sum_list (map (\<lambda>e. \<bar>e\<bar>) xs)"
    by (rule sum_list_nonneg) auto
  then show ?thesis
    by (simp add: mean_def)
qed

section \<open>Claims about the recommendation engine\<close>

text \<open>
  C4. Both similarity matrices are symmetric: for all user indices \<open>a\<close>, \<open>b\<close> the
  user-user matrix has the same entry at \<open>(a, b)\<close> and at \<open>(b, a)\<close>, and for all item
  indices \<open>i\<close>, \<open>j\<close> so has the item-item matrix. The pairwise measures behind them
  (cosine over co-rated items, Pearson over co-raters) are symmetric as well, so mirroring
  the upper triangle changes no value.
\<close>

theorem similarity_matrices_symmetric:
  "user_similarity_matrix m a b = user_similarity_matrix m b a \<and>
   item_similarity_matrix k m i j = item_similarity_matrix k m j i \<and>
   user_similarity m a b = user_similarity m b a \<and>
   item_similarity k m i j = item_similarity k m j i"
  by (simp add: user_similarity_matrix_def item_similarity_matrix_def
      mirrored_commute [of _ a b] mirrored_commute [of _ i j]
      user_similarity_commute [of m a b] item_similarity_commute [of k m i j])

text \<open>
  The theorem in the specification's scenario: users \<open>u1\<close> and \<open>u2\<close> rate alike, their
  similarity is 1 read either way round.
\<close>

theorem similarity_matrices_symmetric_witness:
  "user_similarity_matrix scenario 1 0 = 1 \<and> user_similarity_matrix scenario 0 1 = 1"
proof -
  have "user_similarity scenario 0 1 = 1"
    by (simp add: scenario_def user_similarity_def co_rated_items_def cosine_def
        magnitude_def dot_def upt_rec)
  then have "user_similarity_matrix scenario 0 1 = 1"
    by (simp add: user_similarity_matrix_def mirrored_def)
  with similarity_matrices_symmetric [of scenario 1 0] show ?thesis by simp
qed

text \<open>
  C7. For every evaluated test set with at least one valid prediction, MAE and RMSE are
  non-negative and RMSE is at least MAE, where RMSE is the square root of the mean squared
  error and MAE the mean absolute error over the test ratings with a valid prediction.
\<close>

theorem rmse_at_least_mae:
  assumes "valid_errors ts \<noteq> []"
  shows "0 \<le> mae ts \<and> 0 \<le> rmse ts \<and> mae ts \<le> rmse ts"
proof -
  have m: "0 \<le> mae ts"
    by (simp add: mae_def mean_abs_nonneg)
  have le: "mae ts \<le> rmse ts"
    unfolding mae_def rmse_def by (rule mean_abs_le_root_mean_square [OF assms])
  from m le show ?thesis by simp
qed

text \<open>
  The theorem on three test ratings, one of them without a valid prediction: the errors
  are \<open>-2\<close> and \<open>0\<close>, MAE is 1 and RMSE is the square root of 2.
\<close>

theorem rmse_at_least_mae_witness:
  "mae [\<lparr>predicted = Some 3, actual = 5\<rparr>, \<lparr>predicted = None, actual = 2\<rparr>,
        \<lparr>predicted = Some 4, actual = 4\<rparr>] = 1 \<and>
   rmse [\<lparr>predicted = Some 3, actual = 5\<rparr>, \<lparr>predicted = None, actual = 2\<rparr>,
         \<lparr>predicted = Some 4, actual = 4\<rparr>] = sqrt 2 \<and>
   mae [\<lparr>predicted = Some 3, actual = 5\<rparr>, \<lparr>predicted = None, actual = 2\<rparr>,
        \<lparr>predicted = Some 4, actual = 4\<rparr>]
     \<le> rmse [\<lparr>predicted = Some 3, actual = 5\<rparr>, \<lparr>predicted = None, actual = 2\<rparr>,
              \<lparr>predicted = Some 4, actual = 4\<rparr>]"
proof -
  let ?ts = "[\<lparr>predicted = Some 3, actual = 5\<rparr>, \<lparr>predicted = None, actual = 2\<rparr>,
              \<lparr>predicted = Some 4, actual = 4\<rparr>]"
  have ne: "valid_errors ?ts \<noteq> []"
    by (simp add: valid_errors_def)
  have v: "mae ?ts = 1" "rmse ?ts = sqrt 2"
    by (simp_all add: mae_def rmse_def mean_def valid_errors_def)
  from rmse_at_least_mae [OF ne] v show ?thesis by simp
qed

end
